theory Spec2Isabelle
  imports Complex_Main
begin

section \<open>The site configuration module \<^verbatim>\<open>docusaurus.config.js\<close>\<close>

text \<open>
  The repository's only code is one CommonJS module. Evaluating it loads four packages
  with \<^verbatim>\<open>require\<close>, resolves three paths with \<^verbatim>\<open>require.resolve\<close>, builds one
  object literal, binds it to \<^verbatim>\<open>config\<close> and assigns it to \<^verbatim>\<open>module.exports\<close>.
  The literal contains two functions of the repository: \<^verbatim>\<open>baiduPlugin\<close> and the
  method \<^verbatim>\<open>injectHtmlTags\<close> of the object that \<^verbatim>\<open>baiduPlugin\<close> returns.
\<close>

subsection \<open>JavaScript values\<close>

text \<open>
  The functions defined in the module, as values.
\<close>

datatype fn = BaiduPlugin | InjectHtmlTags

text \<open>
  Values are kept as trees. An array is the list of its elements. \<open>Obj\<close> is an ordinary
  object given by its data properties in insertion order; reading a property of it runs
  no code. \<open>Getters\<close> is an object on which reading a property runs code of whoever
  made the object: an accessor property, its own or inherited, or the \<^verbatim>\<open>get\<close> trap of
  a proxy. It lists, for each such property, how the read completes: \<open>Inl v\<close> when the
  code throws \<open>v\<close>, \<open>Inr v\<close> when it returns \<open>v\<close>. What that code does besides
  completing is the business of its author and is not represented. The built-in
  prototypes are taken as the language defines them, so they have no property
  \<^verbatim>\<open>content\<close>.

  A string is kept as the bytes of its UTF-8 source text (for ASCII text these are its
  code units); the only number literal of the module, \<^verbatim>\<open>0.5\<close>, is an exact binary
  fraction.
\<close>

datatype jsval =
    Undefined
  | Null
  | Bool bool
  | Num rat
  | Str string
  | Arr "jsval list"
  | Obj "(string \<times> jsval) list"
  | Fn fn
  | Getters "(string \<times> (jsval + jsval)) list"

text \<open>
  What a \<^verbatim>\<open>throw\<close> delivers: the engine's \<^verbatim>\<open>TypeError\<close> and
  \<^verbatim>\<open>ReferenceError\<close>, or a value thrown by code outside the repository (a package
  that fails to load, an accessor of an argument).
\<close>

datatype error = TypeError | ReferenceError | Thrown jsval

subsection \<open>The analytics plugin\<close>

text \<open>
  \<^verbatim>\<open>injectHtmlTags({content}) { return { postBodyTags: ['<script ...></script>'] }; }\<close>

  The parameter is an object binding pattern. Binding it first requires the argument to
  be object-coercible, which \<^verbatim>\<open>undefined\<close> and \<^verbatim>\<open>null\<close> are not (a
  \<^verbatim>\<open>TypeError\<close> is thrown), and then reads the property \<^verbatim>\<open>content\<close> of the
  argument. That read runs the argument's accessor or proxy trap where it has one, and
  what such code throws is thrown by the call. Booleans, numbers, strings, arrays and
  functions are coercible and have no property of that name. The function
  \<open>read_property\<close> is meant for such names, which neither arrays, strings and
  functions nor the built-in prototypes define.
\<close>

fun read_property :: "jsval \<Rightarrow> string \<Rightarrow> error + jsval" where
  "read_property (Obj ps) k = Inr (case map_of ps k of None \<Rightarrow> Undefined | Some v \<Rightarrow> v)"
| "read_property (Getters gs) k =
     (case map_of gs k of
        None \<Rightarrow> Inr Undefined
      | Some (Inl x) \<Rightarrow> Inl (Thrown x)
      | Some (Inr v) \<Rightarrow> Inr v)"
| "read_property _ k = Inr Undefined"

fun bind_content :: "jsval \<Rightarrow> error + jsval" where
  "bind_content Undefined = Inl TypeError"
| "bind_content Null = Inl TypeError"
| "bind_content a = read_property a ''content''"

definition injectHtmlTags :: "jsval \<Rightarrow> error + jsval" where
  \<open>injectHtmlTags arg =
     (case bind_content arg of
        Inl e \<Rightarrow> Inl e
      | Inr content \<Rightarrow>
          Inr (Obj [(''postBodyTags'',
            Arr [Str ''<script type="text/javascript" src="https://hm.baidu.com/hm.js?b3f6e7ec9302021671173e3fad14f4cd"></script>''])]))\<close>

text \<open>
  \<^verbatim>\<open>function baiduPlugin(context, options) { return { name: 'baidu-plugin', injectHtmlTags(...) {...} }; }\<close>
\<close>

definition baiduPlugin :: "jsval \<Rightarrow> jsval \<Rightarrow> jsval" where
  "baiduPlugin context options =
     Obj [(''name'', Str ''baidu-plugin''),
          (''injectHtmlTags'', Fn InjectHtmlTags)]"

text \<open>
  Calling a function value with a list of arguments: a parameter without an argument is
  \<^verbatim>\<open>undefined\<close>, surplus arguments are dropped.
\<close>

definition arg :: "jsval list \<Rightarrow> nat \<Rightarrow> jsval" where
  "arg args i = (if i < length args then args ! i else Undefined)"

fun call :: "fn \<Rightarrow> jsval list \<Rightarrow> error + jsval" where
  "call BaiduPlugin args = Inr (baiduPlugin (arg args 0) (arg args 1))"
| "call InjectHtmlTags args = injectHtmlTags (arg args 0)"

subsection \<open>The configuration object\<close>

text \<open>
  The object literal bound to \<^verbatim>\<open>config\<close>, in the order of the source. Its parameters are
  the values the literal takes from outside: the three resolved paths and the four
  loaded packages.
\<close>

definition config_literal ::
  "string \<Rightarrow> string \<Rightarrow> string \<Rightarrow> jsval \<Rightarrow> jsval \<Rightarrow> jsval \<Rightarrow> jsval \<Rightarrow> jsval" where
  "config_literal sidebarPath customCss searchLocal lightCodeTheme darkCodeTheme math katex =
   Obj [
    (''title'', Str (''Python '' @ [CHR 0xE6, CHR 0x95, CHR 0x99, CHR 0xE7, CHR 0xA8, CHR 0x8B])),
    (''tagline'', Str (''Python, '' @ [CHR 0xE7, CHR 0xBC, CHR 0x96, CHR 0xE7, CHR 0xA8, CHR 0x8B]
       @ '', '' @ [CHR 0xE7, CHR 0xBB, CHR 0x8F, CHR 0xE9, CHR 0xAA, CHR 0x8C]
       @ '', '' @ [CHR 0xE6, CHR 0x95, CHR 0x99, CHR 0xE7, CHR 0xA8, CHR 0x8B]
       @ '', '' @ [CHR 0xE5, CHR 0xBC, CHR 0x80, CHR 0xE6, CHR 0xBA, CHR 0x90]
       @ '', '' @ [CHR 0xE5, CHR 0x85, CHR 0x8D, CHR 0xE8, CHR 0xB4, CHR 0xB9]
       @ '', '' @ [CHR 0xE7, CHR 0x94, CHR 0xB5, CHR 0xE5, CHR 0xAD, CHR 0x90, CHR 0xE4, CHR 0xB9, CHR 0xA6]
       @ '', '' @ [CHR 0xE4, CHR 0xB8, CHR 0x8B, CHR 0xE8, CHR 0xBD, CHR 0xBD]
       @ '', PDF, '' @ [CHR 0xE7, CHR 0xA4, CHR 0xBA, CHR 0xE4, CHR 0xBE, CHR 0x8B]
       @ '', '' @ [CHR 0xE9, CHR 0x9D, CHR 0xA2, CHR 0xE8, CHR 0xAF, CHR 0x95])),
    (''url'', Str ''https://py.qizhen.xyz''),
    (''baseUrl'', Str ''/''),
    (''onBrokenLinks'', Str ''throw''),
    (''onBrokenMarkdownLinks'', Str ''warn''),
    (''favicon'', Str ''img/favicon.ico''),
    (''projectName'', Str ''python_book''),
    (''presets'', Arr [
      Arr [
        Str ''classic'',
        Obj [
          (''docs'', Obj [
            (''sidebarPath'', Str sidebarPath),
            (''sidebarCollapsed'', Bool False),
            (''editUrl'', Str ''https://github.com/ruanqizhen/python_book/edit/main/''),
            (''routeBasePath'', Str ''/''),
            (''path'', Str ''./docs''),
            (''remarkPlugins'', Arr [math]),
            (''rehypePlugins'', Arr [katex])]),
          (''blog'', Bool False),
          (''theme'', Obj [
            (''customCss'', Str customCss)]),
          (''sitemap'', Obj [
            (''changefreq'', Str ''weekly''),
            (''priority'', Num (1 / 2))]),
          (''gtag'', Obj [
            (''trackingID'', Str ''G-9EFRGQK2N0'')])]]]),
    (''themeConfig'', Obj [
      (''docs'', Obj [
        (''sidebar'', Obj [
          (''hideable'', Bool True)])]),
      (''colorMode'', Obj [
        (''defaultMode'', Str ''light''),
        (''disableSwitch'', Bool False),
        (''respectPrefersColorScheme'', Bool True)]),
      (''navbar'', Obj [
        (''hideOnScroll'', Bool True),
        (''title'', Str (''Python '' @ [CHR 0xE6, CHR 0x95, CHR 0x99, CHR 0xE7, CHR 0xA8, CHR 0x8B])),
        (''logo'', Obj [
          (''alt'', Str ''Python''),
          (''src'', Str ''img/logo.png''),
          (''href'', Str ''/'')])]),
      (''prism'', Obj [
        (''theme'', lightCodeTheme),
        (''darkTheme'', darkCodeTheme)]),
      (''zoomSelector'', Str ''.markdown img''),
      (''metadata'', Arr [
        Obj [(''name'', Str ''keywords''),
             (''content'', Str (''Python, '' @ [CHR 0xE7, CHR 0xBC, CHR 0x96, CHR 0xE7, CHR 0xA8, CHR 0x8B]
               @ '', '' @ [CHR 0xE7, CHR 0xBB, CHR 0x8F, CHR 0xE9, CHR 0xAA, CHR 0x8C]
               @ '', '' @ [CHR 0xE6, CHR 0x95, CHR 0x99, CHR 0xE7, CHR 0xA8, CHR 0x8B]
               @ '', '' @ [CHR 0xE5, CHR 0xBC, CHR 0x80, CHR 0xE6, CHR 0xBA, CHR 0x90]
               @ '', '' @ [CHR 0xE5, CHR 0x85, CHR 0x8D, CHR 0xE8, CHR 0xB4, CHR 0xB9]
               @ '', '' @ [CHR 0xE7, CHR 0x94, CHR 0xB5, CHR 0xE5, CHR 0xAD, CHR 0x90, CHR 0xE4, CHR 0xB9, CHR 0xA6]
               @ '', '' @ [CHR 0xE4, CHR 0xB8, CHR 0x8B, CHR 0xE8, CHR 0xBD, CHR 0xBD]
               @ '', PDF, '' @ [CHR 0xE7, CHR 0xA4, CHR 0xBA, CHR 0xE4, CHR 0xBE, CHR 0x8B]
               @ '', '' @ [CHR 0xE9, CHR 0x9D, CHR 0xA2, CHR 0xE8, CHR 0xAF, CHR 0x95]))],
        Obj [(''name'', Str ''description''),
             (''content'', Str (''Python '' @ [CHR 0xE5, CHR 0xAD, CHR 0xA6, CHR 0xE4, CHR 0xB9, CHR 0xA0]
               @ '' '' @ [CHR 0xE9, CHR 0x9D, CHR 0xA2, CHR 0xE8, CHR 0xAF, CHR 0x95]))],
        Obj [(''name'', Str ''author''),
             (''content'', Str (''Qizhen Ruan '' @ [CHR 0xE9, CHR 0x98, CHR 0xAE, CHR 0xE5, CHR 0xA5, CHR 0x87,
               CHR 0xE6, CHR 0xA1, CHR 0xA2]))]])]),
    (''plugins'', Arr [
      Fn BaiduPlugin,
      Arr [
        Str searchLocal,
        Obj [
          (''hashed'', Bool True),
          (''language'', Arr [Str ''en'', Str ''zh'']),
          (''docsRouteBasePath'', Str ''/''),
          (''highlightSearchTermsOnTargetPage'', Bool True)]],
      Str ''./src/plugin/plugin-image-zoom'']),
    (''stylesheets'', Arr [
      Obj [
        (''href'', Str ''https://cdn.jsdelivr.net/npm/katex@0.13.24/dist/katex.min.css''),
        (''type'', Str ''text/css''),
        (''integrity'', Str ''sha384-odtC+0UGzzFL/6PNoE8rX/SPcQDXBJ+uRepguP4QkPCm2LBxH3FA3y+fKSiJ+AmM''),
        (''crossorigin'', Str ''anonymous'')]])]"

subsection \<open>Evaluating the module\<close>

text \<open>
  The module takes two things from the Node.js runtime: \<^verbatim>\<open>require\<close>, which loads a
  package and returns what it exports, and \<^verbatim>\<open>require.resolve\<close>, which returns the
  path of a package or file. Both throw when the package or file is not installed.
\<close>

record node_env =
  require :: "string \<Rightarrow> error + jsval"
  require_resolve :: "string \<Rightarrow> error + string"

text \<open>
  The module's bindings once it has been evaluated: its five constants and
  \<^verbatim>\<open>module.exports\<close>.
\<close>

record module_state =
  lightCodeTheme :: jsval
  darkCodeTheme :: jsval
  math :: jsval
  katex :: jsval
  config :: jsval
  exports :: jsval

text \<open>
  The statements of the module in order; the first call that throws ends the evaluation.
  Inside the literal the three \<^verbatim>\<open>require.resolve\<close> calls run in the order of the text.
\<close>

definition and_then :: "error + 'a \<Rightarrow> ('a \<Rightarrow> error + 'b) \<Rightarrow> error + 'b" where
  "and_then r f = (case r of Inl e \<Rightarrow> Inl e | Inr x \<Rightarrow> f x)"

definition evaluate_module :: "node_env \<Rightarrow> error + module_state" where
  "evaluate_module env =
     and_then (require env ''prism-react-renderer/themes/github'') (\<lambda>light.
     and_then (require env ''prism-react-renderer/themes/dracula'') (\<lambda>dark.
     and_then (require env ''remark-math'') (\<lambda>m.
     and_then (require env ''rehype-katex'') (\<lambda>k.
     and_then (require_resolve env ''./sidebars.js'') (\<lambda>sidebarPath.
     and_then (require_resolve env ''./src/css/custom.css'') (\<lambda>customCss.
     and_then (require_resolve env ''@easyops-cn/docusaurus-search-local'') (\<lambda>searchLocal.
       let c = config_literal sidebarPath customCss searchLocal light dark m k
       in Inr \<lparr>lightCodeTheme = light, darkCodeTheme = dark, math = m, katex = k,
               config = c, exports = c\<rparr>)))))))"

subsection \<open>The functions as syntax\<close>




















subsection \<open>Reading the configuration\<close>

text \<open>
  Reading an own property of an object and an element of an array; \<open>None\<close> where the
  value has no such property or element.
\<close>

fun get_prop :: "string \<Rightarrow> jsval \<Rightarrow> jsval option" where
  "get_prop k (Obj ps) = map_of ps k"
| "get_prop k _ = None"

fun get_item :: "nat \<Rightarrow> jsval \<Rightarrow> jsval option" where
  "get_item i (Arr xs) = (if i < length xs then Some (xs ! i) else None)"
| "get_item i _ = None"

fun own_keys :: "jsval \<Rightarrow> string list" where
  "own_keys (Obj ps) = map fst ps"
| "own_keys _ = []"


text \<open>
  Whether reading the property \<^verbatim>\<open>content\<close> of a value throws.
\<close>

definition content_read_throws :: "jsval \<Rightarrow> bool" where
  "content_read_throws a = (case read_property a ''content'' of Inl e \<Rightarrow> True | Inr v \<Rightarrow> False)"

text \<open>
  A field that holds a string of at least one character.
\<close>

definition nonempty_string_field :: "string \<Rightarrow> jsval \<Rightarrow> bool" where
  "nonempty_string_field k c = (case get_prop k c of Some (Str s) \<Rightarrow> s \<noteq> [] | _ \<Rightarrow> False)"

text \<open>
  \<^verbatim>\<open>plugins[1][1]\<close>, the options of the search plugin, and
  \<^verbatim>\<open>presets[0][1].docs\<close>, the options of the documentation renderer.
\<close>

definition search_options :: "jsval \<Rightarrow> jsval option" where
  "search_options c = Option.bind (Option.bind (get_prop ''plugins'' c) (get_item 1)) (get_item 1)"

definition docs_options :: "jsval \<Rightarrow> jsval option" where
  "docs_options c =
     Option.bind (Option.bind (Option.bind (get_prop ''presets'' c) (get_item 0)) (get_item 1)) (get_prop ''docs'')"

text \<open>
  A runtime in which every package and file is installed, for concrete evaluations.
\<close>

definition installed :: node_env where
  "installed = \<lparr>require = (\<lambda>name. Inr (Obj [(''id'', Str name)])),
                 require_resolve = (\<lambda>name. Inr (''/site/node_modules/'' @ name))\<rparr>"

section \<open>Properties\<close>

subsection \<open>The analytics plugin\<close>

lemma bind_content_read:
  "a \<noteq> Undefined \<Longrightarrow> a \<noteq> Null \<Longrightarrow> bind_content a = read_property a ''content''"
  by (cases a) simp_all

lemma bind_content_nullish:
  "bind_content a = Inl TypeError" if "a = Undefined \<or> a = Null"
  using that by auto

lemma injectHtmlTags_bound:
  assumes "bind_content a = Inr c"
  shows \<open>injectHtmlTags a =
    Inr (Obj [(''postBodyTags'',
      Arr [Str ''<script type="text/javascript" src="https://hm.baidu.com/hm.js?b3f6e7ec9302021671173e3fad14f4cd"></script>''])])\<close>
  using assms by (simp add: injectHtmlTags_def)

lemma injectHtmlTags_unbound:
  "bind_content a = Inl e \<Longrightarrow> injectHtmlTags a = Inl e"
  by (simp add: injectHtmlTags_def)

lemma readable_binds:
  assumes "a \<noteq> Undefined" and "a \<noteq> Null" and "\<not> content_read_throws a"
  shows "\<exists>c. bind_content a = Inr c"
proof -
  from assms(3) obtain c where "read_property a ''content'' = Inr c"
    by (auto simp: content_read_throws_def split: sum.splits)
  with assms(1,2) show ?thesis
    by (simp add: bind_content_read)
qed

lemma injectHtmlTags_readable:
  assumes "a \<noteq> Undefined" and "a \<noteq> Null" and "\<not> content_read_throws a"
  shows \<open>injectHtmlTags a =
    Inr (Obj [(''postBodyTags'',
      Arr [Str ''<script type="text/javascript" src="https://hm.baidu.com/hm.js?b3f6e7ec9302021671173e3fad14f4cd"></script>''])])\<close>
  using readable_binds [OF assms] injectHtmlTags_bound by blast

lemma injectHtmlTags_nullish:
  "injectHtmlTags Undefined = Inl TypeError" "injectHtmlTags Null = Inl TypeError"
  by (simp_all add: injectHtmlTags_def)

lemma injectHtmlTags_read_throws:
  assumes "a \<noteq> Undefined" and "a \<noteq> Null" and "read_property a ''content'' = Inl e"
  shows "injectHtmlTags a = Inl e"
  using assms by (simp add: injectHtmlTags_unbound bind_content_read)

lemma returns_readable:
  assumes "injectHtmlTags a = Inr r"
  shows "a \<noteq> Undefined \<and> a \<noteq> Null \<and> \<not> content_read_throws a"
proof (intro conjI notI)
  assume "a = Undefined"
  with assms injectHtmlTags_nullish(1) show False by simp
next
  assume "a = Null"
  with assms injectHtmlTags_nullish(2) show False by simp
next
  assume t: "content_read_throws a"
  then obtain e where e: "read_property a ''content'' = Inl e"
    by (auto simp: content_read_throws_def split: sum.splits)
  show False
  proof (cases "a = Undefined \<or> a = Null")
    case True
    with assms injectHtmlTags_nullish show False by auto
  next
    case False
    with e have "injectHtmlTags a = Inl e"
      by (simp add: injectHtmlTags_read_throws)
    with assms show False by simp
  qed
qed












text \<open>
  C2, as amended. Every invocation of \<^verbatim>\<open>injectHtmlTags\<close> whose argument is neither
  \<^verbatim>\<open>undefined\<close> nor \<^verbatim>\<open>null\<close> and whose property \<^verbatim>\<open>content\<close> can be read
  without a throw, so every invocation with a plain data object, returns an object whose
  only property is \<^verbatim>\<open>postBodyTags\<close>, a one-element array holding the literal
  analytics script tag; and whatever invocation returns, returns this object. The tag
  goes to the end of the document body and nowhere else.
\<close>

theorem injectHtmlTags_postBodyTags:
  assumes "a \<noteq> Undefined" and "a \<noteq> Null" and "\<not> content_read_throws a"
  shows \<open>(\<exists>r. injectHtmlTags a = Inr r
      \<and> own_keys r = [''postBodyTags'']
      \<and> get_prop ''postBodyTags'' r =
          Some (Arr [Str ''<script type="text/javascript" src="https://hm.baidu.com/hm.js?b3f6e7ec9302021671173e3fad14f4cd"></script>'']))
    \<and> (\<forall>b r. injectHtmlTags b = Inr r \<longrightarrow>
          own_keys r = [''postBodyTags'']
        \<and> get_prop ''postBodyTags'' r =
            Some (Arr [Str ''<script type="text/javascript" src="https://hm.baidu.com/hm.js?b3f6e7ec9302021671173e3fad14f4cd"></script>'']))
    \<and> \<not> content_read_throws (Obj ps)\<close>
proof -
  have shape: \<open>own_keys r = [''postBodyTags'']
        \<and> get_prop ''postBodyTags'' r =
            Some (Arr [Str ''<script type="text/javascript" src="https://hm.baidu.com/hm.js?b3f6e7ec9302021671173e3fad14f4cd"></script>''])\<close>
    if "injectHtmlTags b = Inr r" for b r
  proof -
    from that have "b \<noteq> Undefined" "b \<noteq> Null" "\<not> content_read_throws b"
      using returns_readable by blast+
    from injectHtmlTags_readable [OF this] that show ?thesis
      by simp
  qed
  from assms obtain r where r: "injectHtmlTags a = Inr r"
    using injectHtmlTags_readable by blast
  have plain: "\<not> content_read_throws (Obj ps)"
    by (simp add: content_read_throws_def)
  from r shape [OF r] shape plain show ?thesis
    by blast
qed

theorem injectHtmlTags_postBodyTags_witness:
  \<open>\<exists>r. injectHtmlTags (Obj [(''content'', Str ''<html></html>'')]) = Inr r
    \<and> own_keys r = [''postBodyTags'']
    \<and> get_prop ''postBodyTags'' r =
        Some (Arr [Str ''<script type="text/javascript" src="https://hm.baidu.com/hm.js?b3f6e7ec9302021671173e3fad14f4cd"></script>''])\<close>
proof -
  have "Obj [(''content'', Str ''<html></html>'')] \<noteq> Undefined"
    and "Obj [(''content'', Str ''<html></html>'')] \<noteq> Null"
    and "\<not> content_read_throws (Obj [(''content'', Str ''<html></html>'')])"
    by (simp_all add: content_read_throws_def)
  from injectHtmlTags_postBodyTags [OF this] show ?thesis
    by blast
qed

text \<open>
  C2 as it was written, for every invocation, fails: an invocation without an argument
  or with \<^verbatim>\<open>null\<close> returns no object.
\<close>

theorem invocation_without_object_returns_nothing:
  "call InjectHtmlTags [] = Inl TypeError
   \<and> call InjectHtmlTags [Null] = Inl TypeError"
  by (simp add: injectHtmlTags_def arg_def)




subsection \<open>The configuration\<close>

lemma evaluate_module_config:
  assumes "evaluate_module env = Inr st"
  obtains sidebarPath customCss searchLocal where
    "require_resolve env ''./sidebars.js'' = Inr sidebarPath"
    "require_resolve env ''./src/css/custom.css'' = Inr customCss"
    "require_resolve env ''@easyops-cn/docusaurus-search-local'' = Inr searchLocal"
    "config st = config_literal sidebarPath customCss searchLocal
        (lightCodeTheme st) (darkCodeTheme st) (math st) (katex st)"
    "exports st = config st"
  using assms unfolding evaluate_module_def and_then_def
  by (auto split: sum.splits simp: Let_def)

lemma evaluate_module_installed:
  "\<exists>st. evaluate_module installed = Inr st"
  by (simp add: evaluate_module_def and_then_def installed_def Let_def)

lemma exports_literal:
  assumes "evaluate_module env = Inr st"
  shows "\<exists>sp cc sl. exports st =
    config_literal sp cc sl (lightCodeTheme st) (darkCodeTheme st) (math st) (katex st)"
proof -
  from assms obtain sp cc sl where
    "config st = config_literal sp cc sl (lightCodeTheme st) (darkCodeTheme st) (math st) (katex st)"
    and "exports st = config st"
    by (rule evaluate_module_config)
  then show ?thesis by auto
qed

lemma literal_search_options:
  "search_options (config_literal sp cc sl l d m k) =
     Some (Obj [(''hashed'', Bool True),
                (''language'', Arr [Str ''en'', Str ''zh'']),
                (''docsRouteBasePath'', Str ''/''),
                (''highlightSearchTermsOnTargetPage'', Bool True)])"
  by (simp add: search_options_def config_literal_def)

lemma literal_plugins:
  "get_prop ''plugins'' (config_literal sp cc sl l d m k) =
     Some (Arr [Fn BaiduPlugin,
                Arr [Str sl,
                     Obj [(''hashed'', Bool True),
                          (''language'', Arr [Str ''en'', Str ''zh'']),
                          (''docsRouteBasePath'', Str ''/''),
                          (''highlightSearchTermsOnTargetPage'', Bool True)]],
                Str ''./src/plugin/plugin-image-zoom''])"
  by (simp add: config_literal_def)

lemma literal_docs_route:
  "Option.bind (docs_options (config_literal sp cc sl l d m k)) (get_prop ''routeBasePath'')
     = Some (Str ''/'')"
  by (simp add: docs_options_def config_literal_def)

lemma literal_site_fields:
  "get_prop ''title'' (config_literal sp cc sl l d m k) =
     Some (Str (''Python '' @ [CHR 0xE6, CHR 0x95, CHR 0x99, CHR 0xE7, CHR 0xA8, CHR 0x8B]))"
  "get_prop ''url'' (config_literal sp cc sl l d m k) = Some (Str ''https://py.qizhen.xyz'')"
  "get_prop ''baseUrl'' (config_literal sp cc sl l d m k) = Some (Str ''/'')"
  by (simp_all add: config_literal_def)






text \<open>
  C4. The exported configuration object has the fields \<^verbatim>\<open>title\<close>, \<^verbatim>\<open>url\<close> and
  \<^verbatim>\<open>baseUrl\<close>, and each of the three holds a string that is not empty: the site's
  title, \<^verbatim>\<open>'https://py.qizhen.xyz'\<close> and \<^verbatim>\<open>'/'\<close>.
\<close>

theorem site_fields_nonempty:
  assumes "evaluate_module env = Inr st"
  shows "nonempty_string_field ''title'' (exports st)
       \<and> nonempty_string_field ''url'' (exports st)
       \<and> nonempty_string_field ''baseUrl'' (exports st)
       \<and> get_prop ''title'' (exports st) =
           Some (Str (''Python '' @ [CHR 0xE6, CHR 0x95, CHR 0x99, CHR 0xE7, CHR 0xA8, CHR 0x8B]))
       \<and> get_prop ''url'' (exports st) = Some (Str ''https://py.qizhen.xyz'')
       \<and> get_prop ''baseUrl'' (exports st) = Some (Str ''/'')"
proof -
  from assms obtain sp cc sl where
    "exports st = config_literal sp cc sl (lightCodeTheme st) (darkCodeTheme st) (math st) (katex st)"
    using exports_literal by blast
  then show ?thesis
    by (simp add: nonempty_string_field_def literal_site_fields)
qed

theorem site_fields_nonempty_witness:
  "\<exists>st. evaluate_module installed = Inr st
     \<and> nonempty_string_field ''title'' (exports st)
     \<and> nonempty_string_field ''url'' (exports st)
     \<and> nonempty_string_field ''baseUrl'' (exports st)"
  using evaluate_module_installed site_fields_nonempty [of installed] by blast

text \<open>
  C5. The second registered plugin is the pair of the resolved path of
  \<^verbatim>\<open>@easyops-cn/docusaurus-search-local\<close> and an options object, in which
  \<^verbatim>\<open>language\<close> is the list \<^verbatim>\<open>["en", "zh"]\<close>, \<^verbatim>\<open>hashed\<close> is \<^verbatim>\<open>true\<close> and
  \<^verbatim>\<open>docsRouteBasePath\<close> is \<^verbatim>\<open>"/"\<close>. The options object is a constant: every
  evaluation of the module, in whatever runtime, yields the same one.
\<close>

theorem search_options_fixed:
  assumes "evaluate_module env = Inr st"
  shows "\<exists>searchLocal opts.
      require_resolve env ''@easyops-cn/docusaurus-search-local'' = Inr searchLocal
    \<and> Option.bind (get_prop ''plugins'' (exports st)) (get_item 1) = Some (Arr [Str searchLocal, opts])
    \<and> search_options (exports st) = Some opts
    \<and> get_prop ''language'' opts = Some (Arr [Str ''en'', Str ''zh''])
    \<and> get_prop ''hashed'' opts = Some (Bool True)
    \<and> get_prop ''docsRouteBasePath'' opts = Some (Str ''/'')
    \<and> (\<forall>env' st'. evaluate_module env' = Inr st' \<longrightarrow>
          search_options (exports st') = Some opts)"
proof -
  let ?opts = "Obj [(''hashed'', Bool True),
                (''language'', Arr [Str ''en'', Str ''zh'']),
                (''docsRouteBasePath'', Str ''/''),
                (''highlightSearchTermsOnTargetPage'', Bool True)]"
  from assms obtain sp cc sl where
    sl: "require_resolve env ''@easyops-cn/docusaurus-search-local'' = Inr sl"
    and c: "config st = config_literal sp cc sl (lightCodeTheme st) (darkCodeTheme st) (math st) (katex st)"
    and e: "exports st = config st"
    by (rule evaluate_module_config)
  have every: "search_options (exports st') = Some ?opts"
    if "evaluate_module env' = Inr st'" for env' st'
  proof -
    from that obtain sp' cc' sl' where
      "exports st' = config_literal sp' cc' sl' (lightCodeTheme st') (darkCodeTheme st') (math st') (katex st')"
      using exports_literal by blast
    then show ?thesis
      by (simp add: literal_search_options)
  qed
  have pair: "Option.bind (get_prop ''plugins'' (exports st)) (get_item 1) = Some (Arr [Str sl, ?opts])"
    by (simp add: e c literal_plugins)
  have fields: "get_prop ''language'' ?opts = Some (Arr [Str ''en'', Str ''zh''])"
    "get_prop ''hashed'' ?opts = Some (Bool True)"
    "get_prop ''docsRouteBasePath'' ?opts = Some (Str ''/'')"
    by simp_all
  from sl pair every [OF assms] fields every show ?thesis
    by blast
qed

theorem search_options_fixed_witness:
  "\<exists>st opts. evaluate_module installed = Inr st
    \<and> search_options (exports st) = Some opts
    \<and> get_prop ''language'' opts = Some (Arr [Str ''en'', Str ''zh''])
    \<and> get_prop ''hashed'' opts = Some (Bool True)
    \<and> get_prop ''docsRouteBasePath'' opts = Some (Str ''/'')"
  using evaluate_module_installed search_options_fixed [of installed] by blast

text \<open>
  C6. The exported configuration sets the broken-link policy flags: \<^verbatim>\<open>onBrokenLinks\<close>
  is the string \<^verbatim>\<open>'throw'\<close> and \<^verbatim>\<open>onBrokenMarkdownLinks\<close> is the string
  \<^verbatim>\<open>'warn'\<close>.
\<close>

theorem broken_link_policy:
  assumes "evaluate_module env = Inr st"
  shows "get_prop ''onBrokenLinks'' (exports st) = Some (Str ''throw'')
       \<and> get_prop ''onBrokenMarkdownLinks'' (exports st) = Some (Str ''warn'')"
proof -
  from assms obtain sp cc sl where
    "exports st = config_literal sp cc sl (lightCodeTheme st) (darkCodeTheme st) (math st) (katex st)"
    by (auto elim: evaluate_module_config)
  then show ?thesis
    by (simp add: config_literal_def)
qed

theorem broken_link_policy_witness:
  "\<exists>st. evaluate_module installed = Inr st
     \<and> get_prop ''onBrokenLinks'' (exports st) = Some (Str ''throw'')
     \<and> get_prop ''onBrokenMarkdownLinks'' (exports st) = Some (Str ''warn'')"
  using evaluate_module_installed broken_link_policy [of installed] by blast



text \<open>
  C8. The \<^verbatim>\<open>plugins\<close> array has exactly three elements, in this order: the function
  \<^verbatim>\<open>baiduPlugin\<close>, which returns the analytics plugin with its
  \<^verbatim>\<open>injectHtmlTags\<close> hook; the pair of the resolved path of
  \<^verbatim>\<open>@easyops-cn/docusaurus-search-local\<close> and its options; and the path
  \<^verbatim>\<open>"./src/plugin/plugin-image-zoom"\<close>.
\<close>

theorem registered_plugins:
  assumes "evaluate_module env = Inr st"
  shows "\<exists>searchLocal.
      require_resolve env ''@easyops-cn/docusaurus-search-local'' = Inr searchLocal
    \<and> get_prop ''plugins'' (exports st) =
        Some (Arr [Fn BaiduPlugin,
                   Arr [Str searchLocal,
                        Obj [(''hashed'', Bool True),
                             (''language'', Arr [Str ''en'', Str ''zh'']),
                             (''docsRouteBasePath'', Str ''/''),
                             (''highlightSearchTermsOnTargetPage'', Bool True)]],
                   Str ''./src/plugin/plugin-image-zoom''])
    \<and> (\<forall>args. call BaiduPlugin args =
          Inr (Obj [(''name'', Str ''baidu-plugin''), (''injectHtmlTags'', Fn InjectHtmlTags)]))"
proof -
  from assms obtain sp cc sl where
    sl: "require_resolve env ''@easyops-cn/docusaurus-search-local'' = Inr sl"
    and c: "config st = config_literal sp cc sl (lightCodeTheme st) (darkCodeTheme st) (math st) (katex st)"
    and e: "exports st = config st"
    by (rule evaluate_module_config)
  have "get_prop ''plugins'' (exports st) =
        Some (Arr [Fn BaiduPlugin,
                   Arr [Str sl,
                        Obj [(''hashed'', Bool True),
                             (''language'', Arr [Str ''en'', Str ''zh'']),
                             (''docsRouteBasePath'', Str ''/''),
                             (''highlightSearchTermsOnTargetPage'', Bool True)]],
                   Str ''./src/plugin/plugin-image-zoom''])"
    by (simp add: e c literal_plugins)
  moreover have "call BaiduPlugin args =
          Inr (Obj [(''name'', Str ''baidu-plugin''), (''injectHtmlTags'', Fn InjectHtmlTags)])" for args
    by (simp add: baiduPlugin_def)
  ultimately show ?thesis
    using sl by blast
qed

theorem registered_plugins_witness:
  "\<exists>st. evaluate_module installed = Inr st
    \<and> get_prop ''plugins'' (exports st) =
        Some (Arr [Fn BaiduPlugin,
                   Arr [Str ''/site/node_modules/@easyops-cn/docusaurus-search-local'',
                        Obj [(''hashed'', Bool True),
                             (''language'', Arr [Str ''en'', Str ''zh'']),
                             (''docsRouteBasePath'', Str ''/''),
                             (''highlightSearchTermsOnTargetPage'', Bool True)]],
                   Str ''./src/plugin/plugin-image-zoom''])"
proof -
  from evaluate_module_installed obtain st where st: "evaluate_module installed = Inr st" ..
  have "require_resolve installed ''@easyops-cn/docusaurus-search-local''
      = Inr ''/site/node_modules/@easyops-cn/docusaurus-search-local''"
    by (simp add: installed_def)
  with registered_plugins [OF st] st show ?thesis
    by auto
qed

text \<open>
  C9. The route base path is the same wherever the configuration declares it:
  \<^verbatim>\<open>routeBasePath\<close> in the options of the documentation preset,
  \<^verbatim>\<open>docsRouteBasePath\<close> in the options of the search plugin and the top-level
  \<^verbatim>\<open>baseUrl\<close> are all the string \<^verbatim>\<open>"/"\<close>.
\<close>

theorem route_base_paths_agree:
  assumes "evaluate_module env = Inr st"
  shows "Option.bind (docs_options (exports st)) (get_prop ''routeBasePath'') = Some (Str ''/'')
       \<and> Option.bind (search_options (exports st)) (get_prop ''docsRouteBasePath'') = Some (Str ''/'')
       \<and> get_prop ''baseUrl'' (exports st) = Some (Str ''/'')"
proof -
  from assms obtain sp cc sl where
    "exports st = config_literal sp cc sl (lightCodeTheme st) (darkCodeTheme st) (math st) (katex st)"
    using exports_literal by blast
  then show ?thesis
    by (simp add: literal_docs_route literal_search_options literal_site_fields)
qed

theorem route_base_paths_agree_witness:
  "\<exists>st. evaluate_module installed = Inr st
     \<and> Option.bind (docs_options (exports st)) (get_prop ''routeBasePath'') = Some (Str ''/'')
     \<and> Option.bind (search_options (exports st)) (get_prop ''docsRouteBasePath'') = Some (Str ''/'')
     \<and> get_prop ''baseUrl'' (exports st) = Some (Str ''/'')"
  using evaluate_module_installed route_base_paths_agree [of installed] by blast

text \<open>
  C10. The options object of the search plugin has exactly four keys, \<^verbatim>\<open>hashed\<close>,
  \<^verbatim>\<open>language\<close>, \<^verbatim>\<open>docsRouteBasePath\<close> and
  \<^verbatim>\<open>highlightSearchTermsOnTargetPage\<close>, and the last of them is \<^verbatim>\<open>true\<close>.
\<close>

theorem search_options_keys:
  assumes "evaluate_module env = Inr st"
  shows "\<exists>opts. search_options (exports st) = Some opts
       \<and> own_keys opts =
           [''hashed'', ''language'', ''docsRouteBasePath'', ''highlightSearchTermsOnTargetPage'']
       \<and> distinct (own_keys opts) \<and> length (own_keys opts) = 4
       \<and> get_prop ''highlightSearchTermsOnTargetPage'' opts = Some (Bool True)"
proof -
  from assms obtain sp cc sl where
    "exports st = config_literal sp cc sl (lightCodeTheme st) (darkCodeTheme st) (math st) (katex st)"
    using exports_literal by blast
  then show ?thesis
    by (simp add: literal_search_options)
qed

theorem search_options_keys_witness:
  "\<exists>st opts. evaluate_module installed = Inr st
       \<and> search_options (exports st) = Some opts
       \<and> own_keys opts =
           [''hashed'', ''language'', ''docsRouteBasePath'', ''highlightSearchTermsOnTargetPage'']
       \<and> get_prop ''highlightSearchTermsOnTargetPage'' opts = Some (Bool True)"
  using evaluate_module_installed search_options_keys [of installed] by blast

end
